theory Spec2Isabelle
  imports Main "HOL-Library.Monad_Syntax"
begin

section \<open>Python strings, paths and timestamps\<close>

text \<open>
  Python \<open>str\<close> values are modelled as \<open>string\<close>; only characters below code point 256
  are representable, and in that range the decimal digits (\<open>\d\<close>) are exactly \<open>0\<close> to
  \<open>9\<close>. Paths (\<open>pathlib.Path\<close>) are represented by their string rendering.
\<close>

definition newline :: char where
  "newline = CHR 0x0A"

definition is_digit :: "char \<Rightarrow> bool" where
  "is_digit c \<longleftrightarrow> c \<in> set ''0123456789''"

definition dig :: "nat \<Rightarrow> char" where
  "dig n = ''0123456789'' ! (n mod 10)"

text \<open>\<open>str(n)\<close> for a non-negative and for an arbitrary Python \<open>int\<close>.\<close>

fun str_nat :: "nat \<Rightarrow> string" where
  "str_nat n = (if n < 10 then [dig n] else str_nat (n div 10) @ [dig n])"

declare str_nat.simps [simp del]

definition str_int :: "int \<Rightarrow> string" where
  "str_int i = (if i < 0 then CHR ''-'' # str_nat (nat (- i)) else str_nat (nat i))"

text \<open>\<open>sub in s\<close> on strings.\<close>

fun str_contains :: "string \<Rightarrow> string \<Rightarrow> bool" where
  "str_contains sub [] = (sub = [])"
| "str_contains sub (c # cs) =
     (take (length sub) (c # cs) = sub \<or> str_contains sub cs)"

text \<open>
  \<open>s.replace(old, '')\<close>: every non-overlapping occurrence of \<open>old\<close>, found from the left,
  is dropped. An empty \<open>old\<close> leaves the string as it is.
\<close>

fun str_remove :: "string \<Rightarrow> string \<Rightarrow> string" where
  "str_remove old [] = []"
| "str_remove old (c # cs) =
     (if old \<noteq> [] \<and> take (length old) (c # cs) = old
      then str_remove old (drop (length old) (c # cs))
      else c # str_remove old cs)"

text \<open>\<open>s.strip()\<close>: the white space of \<open>str.isspace\<close> below code point 256.\<close>

definition is_space :: "char \<Rightarrow> bool" where
  "is_space c \<longleftrightarrow>
     c \<in> {CHR 0x09, CHR 0x0A, CHR 0x0B, CHR 0x0C, CHR 0x0D, CHR 0x1C, CHR 0x1D, CHR 0x1E,
          CHR 0x1F, CHR 0x20, CHR 0x85, CHR 0xA0}"

definition str_strip :: "string \<Rightarrow> string" where
  "str_strip s = rev (dropWhile is_space (rev (dropWhile is_space s)))"

text \<open>\<open>s.split(sep)\<close> for a one-character separator.\<close>

fun str_split :: "char \<Rightarrow> string \<Rightarrow> string list" where
  "str_split sep [] = [[]]"
| "str_split sep (c # cs) =
     (if c = sep then [] # str_split sep cs
      else (case str_split sep cs of
              [] \<Rightarrow> [[c]]
            | p # ps \<Rightarrow> (c # p) # ps))"

text \<open>
  \<open>Path(p).name\<close> and \<open>Path(p).stem\<close> in the POSIX flavour of pathlib: empty and \<open>.\<close>
  components are dropped, the name is the last component left (or the empty string), and
  the stem cuts the name at its last dot unless that dot is the first or the last
  character.
\<close>

definition path_name :: "string \<Rightarrow> string" where
  "path_name p =
     (case filter (\<lambda>c. c \<noteq> [] \<and> c \<noteq> ''.'') (str_split CHR ''/'' p) of
        [] \<Rightarrow> []
      | cs \<Rightarrow> last cs)"

definition str_rfind :: "char \<Rightarrow> string \<Rightarrow> nat option" where
  "str_rfind c s =
     (let k = length (takeWhile (\<lambda>x. x \<noteq> c) (rev s))
      in if k = length s then None else Some (length s - 1 - k))"

definition path_stem :: "string \<Rightarrow> string" where
  "path_stem p =
     (let name = path_name p
      in case str_rfind CHR ''.'' name of
           None \<Rightarrow> name
         | Some i \<Rightarrow> if 0 < i \<and> i < length name - 1 then take i name else name)"

text \<open>
  A \<open>datetime\<close> value, as \<open>datetime.now()\<close> returns it (microseconds are not read by the
  format used here). \<open>valid_datetime\<close> is the range the class enforces, restricted to
  four-digit years, where \<open>%Y\<close> prints the same on every platform.
\<close>

record datetime =
  year :: nat
  month :: nat
  day :: nat
  hour :: nat
  minute :: nat
  second :: nat

definition valid_datetime :: "datetime \<Rightarrow> bool" where
  "valid_datetime t \<longleftrightarrow>
     1000 \<le> year t \<and> year t \<le> 9999 \<and> 1 \<le> month t \<and> month t \<le> 12 \<and>
     1 \<le> day t \<and> day t \<le> 31 \<and> hour t < 24 \<and> minute t < 60 \<and> second t < 60"

definition zero_pad :: "nat \<Rightarrow> string \<Rightarrow> string" where
  "zero_pad w s = replicate (w - length s) CHR ''0'' @ s"

text \<open>\<open>t.strftime("%Y-%m-%d_%H-%M-%S")\<close>\<close>

definition strftime :: "datetime \<Rightarrow> string" where
  "strftime t =
     zero_pad 4 (str_nat (year t)) @ ''-'' @ zero_pad 2 (str_nat (month t)) @ ''-'' @
     zero_pad 2 (str_nat (day t)) @ ''_'' @ zero_pad 2 (str_nat (hour t)) @ ''-'' @
     zero_pad 2 (str_nat (minute t)) @ ''-'' @ zero_pad 2 (str_nat (second t))"

section \<open>Filename codec: \<open>extract_db_name_from_filename\<close> (cli/main.py)\<close>

text \<open>
  The pattern
  \<^verbatim>\<open>^postgres_(.+?)_full_\d{4}-\d{2}-\d{2}_\d{2}-\d{2}(?:-\d{2})?$\<close>
  is matched by \<open>re.match\<close> with backtracking. \<open>lit\<close> consumes a literal, \<open>digits n\<close>
  consumes \<open>\d{n}\<close>; both return the rest of the input. \<open>$\<close> holds at the end of the
  string and just before a line feed that ends the string. \<open>.\<close> matches any character but
  a line feed.
\<close>

definition lit :: "string \<Rightarrow> string \<Rightarrow> string option" where
  "lit p s = (if take (length p) s = p then Some (drop (length p) s) else None)"

fun digits :: "nat \<Rightarrow> string \<Rightarrow> string option" where
  "digits 0 s = Some s"
| "digits (Suc n) [] = None"
| "digits (Suc n) (c # cs) = (if is_digit c then digits n cs else None)"

definition at_end :: "string \<Rightarrow> bool" where
  "at_end s \<longleftrightarrow> s = [] \<or> s = [newline]"

text \<open>\<^verbatim>\<open>_full_\d{4}-\d{2}-\d{2}_\d{2}-\d{2}\<close>: the part of the suffix with no choice in it.\<close>

definition fixed_suffix :: "string \<Rightarrow> string option" where
  "fixed_suffix s = do {
     r \<leftarrow> lit ''_full_'' s;
     r \<leftarrow> digits 4 r; r \<leftarrow> lit ''-'' r;
     r \<leftarrow> digits 2 r; r \<leftarrow> lit ''-'' r;
     r \<leftarrow> digits 2 r; r \<leftarrow> lit ''_'' r;
     r \<leftarrow> digits 2 r; r \<leftarrow> lit ''-'' r;
     digits 2 r }"

text \<open>
  The whole suffix: the greedy optional group \<^verbatim>\<open>(?:-\d{2})?\<close> is tried first, and
  skipped when \<open>$\<close> fails after it.
\<close>

definition match_suffix :: "string \<Rightarrow> bool" where
  "match_suffix s =
     (case fixed_suffix s of
        None \<Rightarrow> False
      | Some r \<Rightarrow>
          (case do { r' \<leftarrow> lit ''-'' r; digits 2 r' } of
             Some r' \<Rightarrow> at_end r' \<or> at_end r
           | None \<Rightarrow> at_end r))"

text \<open>
  The lazy group \<^verbatim>\<open>(.+?)\<close>: \<open>g\<close> is the group read so far; the suffix is tried at once
  and the group grows by one character, never a line feed, each time the suffix fails.
\<close>

fun lazy_group :: "string \<Rightarrow> string \<Rightarrow> string option" where
  "lazy_group g [] = (if match_suffix [] then Some g else None)"
| "lazy_group g (c # cs) =
     (if match_suffix (c # cs) then Some g
      else if c = newline then None
      else lazy_group (g @ [c]) cs)"

definition re_match :: "string \<Rightarrow> string option" where
  "re_match name =
     (case lit ''postgres_'' name of
        None \<Rightarrow> None
      | Some [] \<Rightarrow> None
      | Some (c # cs) \<Rightarrow> if c = newline then None else lazy_group [c] cs)"

definition extract_db_name_from_filename :: "string \<Rightarrow> string option" where
  "extract_db_name_from_filename filename =
     (let name = str_remove ''.sql'' (str_remove ''.tar'' (str_remove ''.tar.gz'' filename))
      in case re_match name of Some g \<Rightarrow> Some g | None \<Rightarrow> None)"

text \<open>
  The shape \<open>YYYY-MM-DD_HH-MM-SS\<close> of a timestamp, and the artifact name
  \<open><db_type>_<db_name>_full_<YYYY-MM-DD>_<HH-MM-SS>.<ext>\<close> that the docstring of
  \<open>extract_db_name_from_filename\<close> gives as the format.
\<close>

definition is_timestamp :: "string \<Rightarrow> bool" where
  "is_timestamp ts \<longleftrightarrow>
     do { r \<leftarrow> digits 4 ts; r \<leftarrow> lit ''-'' r;
          r \<leftarrow> digits 2 r; r \<leftarrow> lit ''-'' r;
          r \<leftarrow> digits 2 r; r \<leftarrow> lit ''_'' r;
          r \<leftarrow> digits 2 r; r \<leftarrow> lit ''-'' r;
          r \<leftarrow> digits 2 r; r \<leftarrow> lit ''-'' r;
          digits 2 r } = Some []"

definition backup_name_form :: "string \<Rightarrow> string \<Rightarrow> string \<Rightarrow> string \<Rightarrow> string \<Rightarrow> bool" where
  "backup_name_form db_type db_name ts ext filename \<longleftrightarrow>
     is_timestamp ts \<and> filename = db_type @ ''_'' @ db_name @ ''_full_'' @ ts @ ''.'' @ ext"

section \<open>Exceptions and external processes\<close>

text \<open>
  The exceptions the code raises, catches or lets through. An exception object is modelled
  by what the code reads of it: its class and \<open>str(e)\<close>; a \<open>CalledProcessError\<close> also
  carries its \<open>stderr\<close> attribute. \<open>Exit\<close> is \<open>typer.Exit\<close>, which is click's
  \<open>Exit\<close>, a subclass of \<open>RuntimeError\<close>.
\<close>

datatype exc =
    CalledProcessError string string
  | TimeoutExpired string
  | FileNotFoundError string
  | ValueError string
  | RuntimeError string
  | Exit nat
  | OtherException string

fun exc_str :: "exc \<Rightarrow> string" where
  "exc_str (CalledProcessError err s) = s"
| "exc_str (TimeoutExpired s) = s"
| "exc_str (FileNotFoundError s) = s"
| "exc_str (ValueError s) = s"
| "exc_str (RuntimeError s) = s"
| "exc_str (Exit code) = []"
| "exc_str (OtherException s) = s"

text \<open>
  One call of \<open>subprocess.run(cmd, env=..., stdin=..., capture_output=True, text=True,
  timeout=..., check=True)\<close>. \<open>env = None\<close> is the inherited environment, \<open>stdin\<close> the
  path of the file opened for it. The outside world is the function \<open>run\<close>, from a call to
  the exception raised (\<open>Inl\<close>) or the captured standard output (\<open>Inr\<close>); every operation
  returns the calls it made, in order, with its result.
\<close>

record invocation =
  argv :: "string list"
  env :: "(string \<rightharpoonup> string) option"
  stdin :: "string option"
  timeout :: "nat option"

type_synonym runner = "invocation \<Rightarrow> exc + string"

section \<open>Handlers (databases/mysql.py, databases/mongodb.py, databases/sqlite.py)\<close>

text \<open>
  The configuration dictionary of a handler, with the keys the constructors read; a key
  that is absent is \<open>None\<close>.
\<close>

record config =
  cfg_host :: "string option"
  cfg_port :: "int option"
  cfg_username :: "string option"
  cfg_password :: "string option"
  cfg_database :: "string option"
  cfg_auth_database :: "string option"
  cfg_db_path :: "string option"

text \<open>\<open>d.get(key, default)\<close>\<close>

definition get_or :: "'a option \<Rightarrow> 'a \<Rightarrow> 'a" where
  "get_or v d = (case v of None \<Rightarrow> d | Some x \<Rightarrow> x)"

record connection =
  host :: string
  port :: int
  username :: string
  password :: string

record MySQLHandler = connection +
  default_database :: string

record MongoDBHandler = connection +
  database :: string
  auth_db :: string

record SQLiteHandler =
  db_path :: string

subsection \<open>MySQL\<close>

definition MySQLHandler_init :: "config \<Rightarrow> MySQLHandler" where
  "MySQLHandler_init c =
     \<lparr> host = get_or (cfg_host c) ''localhost'',
       port = get_or (cfg_port c) 3306,
       username = get_or (cfg_username c) ''root'',
       password = get_or (cfg_password c) [],
       default_database = get_or (cfg_database c) [] \<rparr>"

definition MySQL_get_default_backup_name :: "datetime \<Rightarrow> MySQLHandler \<Rightarrow> string \<Rightarrow> string" where
  "MySQL_get_default_backup_name now h db =
     ''mysql_'' @ db @ ''_full_'' @ strftime now @ ''.sql''"

text \<open>\<open>_get_env\<close>: \<open>environ\<close> is \<open>os.environ\<close>.\<close>

definition MySQL_get_env :: "(string \<rightharpoonup> string) \<Rightarrow> MySQLHandler \<Rightarrow> (string \<rightharpoonup> string)" where
  "MySQL_get_env environ h =
     (if password h \<noteq> [] then environ(''MYSQL_PWD'' \<mapsto> password h) else environ)"

definition MySQL_validate_connection ::
  "runner \<Rightarrow> (string \<rightharpoonup> string) \<Rightarrow> MySQLHandler \<Rightarrow> invocation list \<times> (exc + bool)" where
  "MySQL_validate_connection run environ h =
     (let cmd = [''mysql'', ''-h'', host h, ''-P'', str_int (port h), ''-u'', username h,
                 ''-e'', ''SELECT 1;''];
          call = \<lparr> argv = cmd, env = Some (MySQL_get_env environ h), stdin = None,
                   timeout = Some 10 \<rparr>
      in ([call],
          case run call of
            Inr out \<Rightarrow> Inr True
          | Inl (TimeoutExpired s) \<Rightarrow>
              Inl (RuntimeError (''Connection timeout to MySQL at '' @ host h @ '':'' @
                 str_int (port h) @
                 ''. Check that the server is running and network is accessible.''))
          | Inl (CalledProcessError err s) \<Rightarrow>
              Inl (RuntimeError (''Cannot connect to MySQL at '' @ host h @ '':'' @
                 str_int (port h) @ ''. Check credentials and server status. Error: '' @
                 (if err \<noteq> [] then str_strip err else s)))
          | Inl e \<Rightarrow> Inl e))"

text \<open>\<open>validate_tools\<close>: \<open>which\<close> is the truth value of \<open>shutil.which\<close>.\<close>

definition MySQL_validate_tools ::
  "(string \<Rightarrow> bool) \<Rightarrow> runner \<Rightarrow> (string \<rightharpoonup> string) \<Rightarrow> MySQLHandler \<Rightarrow>
     invocation list \<times> (exc + bool)" where
  "MySQL_validate_tools which run environ h =
     (if \<not> which ''mysqldump'' then
        ([], Inl (RuntimeError (''mysqldump not found. Please install MySQL client tools.'' @
           [newline] @ ''Download from: https://dev.mysql.com/downloads/'')))
      else if \<not> which ''mysql'' then
        ([], Inl (RuntimeError (''mysql client not found. Please install MySQL client tools.'' @
           [newline] @ ''Download from: https://dev.mysql.com/downloads/'')))
      else (case MySQL_validate_connection run environ h of
              (calls, Inl e) \<Rightarrow> (calls, Inl e)
            | (calls, Inr ok) \<Rightarrow> (calls, Inr True)))"

definition MySQL_database_exists ::
  "runner \<Rightarrow> (string \<rightharpoonup> string) \<Rightarrow> MySQLHandler \<Rightarrow> string \<Rightarrow> invocation list \<times> (exc + bool)" where
  "MySQL_database_exists run environ h db =
     (let cmd = [''mysql'', ''-h'', host h, ''-P'', str_int (port h), ''-u'', username h,
                 ''-e'', ''SHOW DATABASES LIKE '' @ [CHR 0x27] @ db @ [CHR 0x27] @ '';''];
          call = \<lparr> argv = cmd, env = Some (MySQL_get_env environ h), stdin = None,
                   timeout = Some 10 \<rparr>
      in ([call],
          case run call of
            Inr out \<Rightarrow> Inr (length (str_split newline (str_strip out)) > 1)
          | Inl (CalledProcessError err s) \<Rightarrow> Inr True
          | Inl (TimeoutExpired s) \<Rightarrow> Inr True
          | Inl e \<Rightarrow> Inl e))"

definition MySQL_backup ::
  "runner \<Rightarrow> (string \<rightharpoonup> string) \<Rightarrow> MySQLHandler \<Rightarrow> string \<Rightarrow> string \<Rightarrow>
     invocation list \<times> (exc + unit)" where
  "MySQL_backup run environ h db output_file =
     (let cmd = [''mysqldump'', ''-h'', host h, ''-P'', str_int (port h), ''-u'', username h,
                 ''--result-file'', output_file, db];
          call = \<lparr> argv = cmd, env = Some (MySQL_get_env environ h), stdin = None,
                   timeout = Some 3600 \<rparr>
      in ([call],
          case run call of
            Inr out \<Rightarrow> Inr ()
          | Inl (CalledProcessError err s) \<Rightarrow>
              Inl (RuntimeError (''Backup failed: '' @ (if err \<noteq> [] then err else s)))
          | Inl e \<Rightarrow> Inl (RuntimeError (''Unexpected error during backup: '' @ exc_str e))))"

text \<open>
  \<open>restore\<close>: \<open>open_file\<close> is \<open>open(input_file, 'r')\<close>, \<open>None\<close> when the file opens and the
  exception otherwise.
\<close>

definition MySQL_restore ::
  "(string \<Rightarrow> exc option) \<Rightarrow> runner \<Rightarrow> (string \<rightharpoonup> string) \<Rightarrow> MySQLHandler \<Rightarrow> string \<Rightarrow>
     string \<Rightarrow> invocation list \<times> (exc + unit)" where
  "MySQL_restore open_file run environ h db input_file =
     (let cmd = [''mysql'', ''-h'', host h, ''-P'', str_int (port h), ''-u'', username h, db];
          call = \<lparr> argv = cmd, env = Some (MySQL_get_env environ h), stdin = Some input_file,
                   timeout = Some 3600 \<rparr>;
          (calls, raised) =
            (case open_file input_file of
               Some e \<Rightarrow> ([], Some e)
             | None \<Rightarrow> ([call], case run call of Inr out \<Rightarrow> None | Inl e \<Rightarrow> Some e))
      in (calls,
          case raised of
            None \<Rightarrow> Inr ()
          | Some (FileNotFoundError s) \<Rightarrow>
              Inl (RuntimeError (''Backup file not found: '' @ input_file))
          | Some (CalledProcessError err s) \<Rightarrow>
              (let error_msg = ''Restore failed: '' @ (if err \<noteq> [] then err else s)
               in Inl (RuntimeError
                    (if str_contains ''Unknown database'' error_msg
                     then error_msg @ [newline] @
                          ''Hint: Create the database first with: CREATE DATABASE '' @ db @ '';''
                     else error_msg)))
          | Some e \<Rightarrow> Inl (RuntimeError (''Unexpected error during restore: '' @ exc_str e))))"

subsection \<open>SQLite\<close>

definition SQLiteHandler_init :: "config \<Rightarrow> SQLiteHandler" where
  "SQLiteHandler_init c = \<lparr> db_path = get_or (cfg_db_path c) ''data.db'' \<rparr>"

definition SQLite_get_default_backup_name :: "datetime \<Rightarrow> SQLiteHandler \<Rightarrow> string \<Rightarrow> string" where
  "SQLite_get_default_backup_name now h db =
     (let name = (if db \<noteq> [] \<and> db \<noteq> ''sqlite'' then db else path_stem (db_path h))
      in ''sqlite_'' @ name @ ''_full_'' @ strftime now @ ''.db'')"

subsection \<open>MongoDB\<close>

definition MongoDBHandler_init :: "config \<Rightarrow> MongoDBHandler" where
  "MongoDBHandler_init c =
     \<lparr> host = get_or (cfg_host c) ''localhost'',
       port = get_or (cfg_port c) 27017,
       username = get_or (cfg_username c) [],
       password = get_or (cfg_password c) [],
       database = get_or (cfg_database c) [],
       auth_db = get_or (cfg_auth_database c) ''admin'' \<rparr>"

definition MongoDB_get_default_backup_name :: "datetime \<Rightarrow> MongoDBHandler \<Rightarrow> string \<Rightarrow> string" where
  "MongoDB_get_default_backup_name now h db =
     (let db_part = (if db \<noteq> [] then db else if database h \<noteq> [] then database h else ''all'')
      in ''mongo_'' @ db_part @ ''_'' @ strftime now @ ''.archive'')"

definition MongoDB_build_base_cmd :: "MongoDBHandler \<Rightarrow> string \<Rightarrow> string list" where
  "MongoDB_build_base_cmd h tool =
     [tool, ''--host'', host h, ''--port'', str_int (port h)] @
     (if username h \<noteq> []
      then [''--username'', username h] @ [''--password'', password h] @
           [''--authenticationDatabase'', auth_db h]
      else [])"

definition MongoDB_validate_connection ::
  "(string \<Rightarrow> bool) \<Rightarrow> runner \<Rightarrow> MongoDBHandler \<Rightarrow> invocation list \<times> (exc + bool)" where
  "MongoDB_validate_connection which run h =
     (if which ''mongosh'' then
        (let cmd = MongoDB_build_base_cmd h ''mongosh'' @
                   [''--eval'', ''db.runCommand({ ping: 1 })''];
             call = \<lparr> argv = cmd, env = None, stdin = None, timeout = Some 10 \<rparr>
         in ([call],
             case run call of
               Inr out \<Rightarrow> Inr True
             | Inl (TimeoutExpired s) \<Rightarrow>
                 Inl (RuntimeError (''Connection timeout to MongoDB at '' @ host h @ '':'' @
                    str_int (port h)))
             | Inl (CalledProcessError err s) \<Rightarrow>
                 Inl (RuntimeError (''Cannot connect to MongoDB: '' @
                    (if err \<noteq> [] then err else s)))
             | Inl e \<Rightarrow> Inl e))
      else ([], Inr True))"

definition MongoDB_validate_tools ::
  "(string \<Rightarrow> bool) \<Rightarrow> runner \<Rightarrow> MongoDBHandler \<Rightarrow> invocation list \<times> (exc + bool)" where
  "MongoDB_validate_tools which run h =
     (if \<not> which ''mongodump'' then
        ([], Inl (RuntimeError (''mongodump not found. Please install MongoDB Database Tools.'' @
           [newline] @ ''Download from: https://www.mongodb.com/try/download/database-tools'')))
      else if \<not> which ''mongorestore'' then
        ([], Inl (RuntimeError (''mongorestore not found. Please install MongoDB Database Tools.'' @
           [newline] @ ''Download from: https://www.mongodb.com/try/download/database-tools'')))
      else (case MongoDB_validate_connection which run h of
              (calls, Inl e) \<Rightarrow> (calls, Inl e)
            | (calls, Inr ok) \<Rightarrow> (calls, Inr True)))"

definition MongoDB_backup ::
  "runner \<Rightarrow> MongoDBHandler \<Rightarrow> string \<Rightarrow> string \<Rightarrow> invocation list \<times> (exc + unit)" where
  "MongoDB_backup run h db output_file =
     (let target_db = (if db \<noteq> [] then db else database h);
          cmd = MongoDB_build_base_cmd h ''mongodump'' @
                [''--archive='' @ output_file, ''--gzip''] @
                (if target_db \<noteq> [] then [''--db'', target_db] else []);
          call = \<lparr> argv = cmd, env = None, stdin = None, timeout = Some 3600 \<rparr>
      in ([call],
          case run call of
            Inr out \<Rightarrow> Inr ()
          | Inl (CalledProcessError err s) \<Rightarrow>
              Inl (RuntimeError (''Backup failed: '' @ (if err \<noteq> [] then err else s)))
          | Inl e \<Rightarrow> Inl e))"

definition MongoDB_restore ::
  "runner \<Rightarrow> MongoDBHandler \<Rightarrow> string \<Rightarrow> string \<Rightarrow> invocation list \<times> (exc + unit)" where
  "MongoDB_restore run h db input_file =
     (let cmd = MongoDB_build_base_cmd h ''mongorestore'' @
                [''--archive='' @ input_file, ''--gzip''];
          call = \<lparr> argv = cmd, env = None, stdin = None, timeout = Some 3600 \<rparr>
      in ([call],
          case run call of
            Inr out \<Rightarrow> Inr ()
          | Inl (CalledProcessError err s) \<Rightarrow>
              Inl (RuntimeError (''Restore failed: '' @ (if err \<noteq> [] then err else s)))
          | Inl e \<Rightarrow> Inl e))"

section \<open>Handler factory (databases/factory.py)\<close>

text \<open>
  \<open>PostgresHandler\<close> (databases/postgres.py) is not among the sources at hand: its
  instances are the type parameter \<open>'p\<close> and its constructor is a parameter of the factory.
\<close>

datatype 'p handler =
    Postgres 'p
  | MySQL MySQLHandler
  | SQLite SQLiteHandler
  | MongoDB MongoDBHandler

text \<open>The class attribute \<open>_handlers\<close>, a dictionary in insertion order.\<close>

definition handlers :: "(config \<Rightarrow> 'p) \<Rightarrow> (string \<times> (config \<Rightarrow> 'p handler)) list" where
  "handlers PostgresHandler_init =
     [(''postgres'', \<lambda>c. Postgres (PostgresHandler_init c)),
      (''mysql'', \<lambda>c. MySQL (MySQLHandler_init c)),
      (''sqlite'', \<lambda>c. SQLite (SQLiteHandler_init c)),
      (''mongodb'', \<lambda>c. MongoDB (MongoDBHandler_init c))]"

text \<open>
  \<open>repr\<close> of a list of strings, for strings of letters (the keys of \<open>_handlers\<close>): each in
  single quotes, separated by a comma and a space, in square brackets.
\<close>

fun join :: "string \<Rightarrow> string list \<Rightarrow> string" where
  "join sep [] = []"
| "join sep [x] = x"
| "join sep (x # y # ys) = x @ sep @ join sep (y # ys)"

definition repr_str :: "string \<Rightarrow> string" where
  "repr_str s = [CHR 0x27] @ s @ [CHR 0x27]"

definition repr_list :: "string list \<Rightarrow> string" where
  "repr_list xs = ''['' @ join '', '' (map repr_str xs) @ '']''"

definition get_handler :: "(config \<Rightarrow> 'p) \<Rightarrow> string \<Rightarrow> config \<Rightarrow> exc + 'p handler" where
  "get_handler PostgresHandler_init db_type c =
     (case map_of (handlers PostgresHandler_init) db_type of
        None \<Rightarrow>
          Inl (ValueError (''Unsupported database type: '' @ db_type @
                 ''. Supported types: '' @
                 repr_list (map fst (handlers PostgresHandler_init))))
      | Some handler_cls \<Rightarrow> Inr (handler_cls c))"

text \<open>The tag a handler variant is registered under, and the closed set of tags.\<close>

fun variant_tag :: "'p handler \<Rightarrow> string" where
  "variant_tag (Postgres h) = ''postgres''"
| "variant_tag (MySQL h) = ''mysql''"
| "variant_tag (SQLite h) = ''sqlite''"
| "variant_tag (MongoDB h) = ''mongodb''"

definition supported_tags :: "string list" where
  "supported_tags = [''postgres'', ''mysql'', ''sqlite'', ''mongodb'']"

section \<open>The \<open>restore\<close> command (cli/main.py)\<close>

text \<open>
  The command's collaborators are not among the sources at hand and are parameters:
  the configuration loader (a value of type \<open>'c\<close>) with its two accessors, the logger
  set-up, the constructor of the Postgres handler and \<open>perform_restore\<close>. Each may raise.
  The command's observable behaviour is the list of its events, in order: what it echoes
  (to standard output or to standard error) and the calls of \<open>perform_restore\<close> with their
  arguments, and its exit code. \<open>DatabaseType\<close> has the single member \<open>postgres\<close>, so
  the branch of the command that rejects any other type is never taken.
\<close>

datatype DatabaseType = postgres

record ('c, 'h) collaborators =
  ConfigLoader :: "string option \<Rightarrow> exc + 'c"
  get_backup_directory :: "'c \<Rightarrow> exc + string"
  setup_logger :: "string \<Rightarrow> exc + unit"
  get_postgres_config :: "'c \<Rightarrow> exc + config"
  PostgresHandler :: "config \<Rightarrow> 'h"
  perform_restore :: "'h \<Rightarrow> string \<Rightarrow> string \<Rightarrow> bool \<Rightarrow> exc + unit"

datatype 'h cli_event =
    Echo string
  | EchoErr string
  | PerformRestore 'h string string bool

definition bind_exc :: "exc + 'a \<Rightarrow> ('a \<Rightarrow> 'e list \<times> (exc + 'b)) \<Rightarrow> 'e list \<times> (exc + 'b)" where
  "bind_exc x f = (case x of Inl e \<Rightarrow> ([], Inl e) | Inr v \<Rightarrow> f v)"

definition guidance :: string where
  "guidance =
     ''Error: Could not detect database name from filename. '' @
     ''Please specify --db-name explicitly.'' @ [newline] @
     ''Expected format: postgres_<db_name>_full_<YYYY-MM-DD>_<HH-MM-SS>.sql''"

text \<open>The body of the \<open>try\<close> statement of \<open>restore\<close>.\<close>

definition restore_try ::
  "('c, 'h) collaborators \<Rightarrow> DatabaseType \<Rightarrow> string \<Rightarrow> string option \<Rightarrow> string option \<Rightarrow> bool \<Rightarrow>
     'h cli_event list \<times> (exc + unit)" where
  "restore_try C db file db_name config_file yes =
     bind_exc (ConfigLoader C config_file) (\<lambda>cfg.
     bind_exc (get_backup_directory C cfg) (\<lambda>dir.
     let log_file = dir @ ''/clidup.log'' in
     bind_exc (setup_logger C log_file) (\<lambda>logger.
     case db of postgres \<Rightarrow>
     bind_exc (get_postgres_config C cfg) (\<lambda>db_config.
     let db_handler = PostgresHandler C db_config;
         perform = (\<lambda>echoed name.
           let call = PerformRestore db_handler name file yes
           in case perform_restore C db_handler name file yes of
                Inl e \<Rightarrow> (echoed @ [call], Inl e)
              | Inr u \<Rightarrow> (echoed @ [call, Echo (''Logs: '' @ log_file)], Inr ()));
         fail = ([EchoErr guidance], Inl (Exit 1))
     in case db_name of
          Some name \<Rightarrow> perform [] name
        | None \<Rightarrow>
            (case extract_db_name_from_filename (path_name file) of
               Some name \<Rightarrow>
                 if name \<noteq> []
                 then perform [Echo (''Info: Detected database name from filename: '' @ name)] name
                 else fail
             | None \<Rightarrow> fail)))))"

text \<open>
  The \<open>except\<close> clauses: each echoes a message to standard error and raises
  \<open>typer.Exit(code=1)\<close>; a normal return is exit code 0.
\<close>

fun except_message :: "exc \<Rightarrow> string" where
  "except_message (FileNotFoundError s) = ''Error: File not found: '' @ s"
| "except_message (ValueError s) = ''Error: Configuration error: '' @ s"
| "except_message (RuntimeError s) = ''Error: Restore failed: '' @ s"
| "except_message (Exit code) = ''Error: Restore failed: '' @ exc_str (Exit code)"
| "except_message e = ''Error: Unexpected error: '' @ exc_str e"

definition restore ::
  "('c, 'h) collaborators \<Rightarrow> DatabaseType \<Rightarrow> string \<Rightarrow> string option \<Rightarrow> string option \<Rightarrow> bool \<Rightarrow>
     'h cli_event list \<times> nat" where
  "restore C db file db_name config_file yes =
     (case restore_try C db file db_name config_file yes of
        (events, Inr u) \<Rightarrow> (events, 0)
      | (events, Inl e) \<Rightarrow> (events @ [EchoErr (except_message e)], 1))"

text \<open>The calls of \<open>perform_restore\<close> among the events of a run.\<close>

fun restore_calls :: "'h cli_event list \<Rightarrow> ('h \<times> string \<times> string \<times> bool) list" where
  "restore_calls [] = []"
| "restore_calls (PerformRestore h name file skip # es) = (h, name, file, skip) # restore_calls es"
| "restore_calls (e # es) = restore_calls es"

section \<open>The restore orchestrator\<close>

text \<open>
  Modelled from the spec: \<open>perform_restore\<close> (core/restore.py) is not among the sources at
  hand. The specification's restore sequence, for a handler already constructed and a
  database name already resolved: validate the tools; unless confirmation is skipped,
  prompt for confirmation and abort on decline; invoke the handler's restore. \<open>confirm\<close>
  is the user's answer to the prompt. The result comes with the steps taken, in order.
\<close>

record handler_contract =
  hc_validate_tools :: "exc + bool"
  hc_restore :: "string \<Rightarrow> string \<Rightarrow> exc + unit"

datatype step =
    ValidateTools
  | Confirm string string
  | Restore string string

datatype outcome = Restored | Aborted | Failed exc

definition perform_restore_spec ::
  "(string \<Rightarrow> string \<Rightarrow> bool) \<Rightarrow> handler_contract \<Rightarrow> string \<Rightarrow> string \<Rightarrow> bool \<Rightarrow>
     step list \<times> outcome" where
  "perform_restore_spec confirm h db_name backup_file skip_confirmation =
     (case hc_validate_tools h of
        Inl e \<Rightarrow> ([ValidateTools], Failed e)
      | Inr ok \<Rightarrow>
          (let asked = (if skip_confirmation then [] else [Confirm db_name backup_file])
           in if \<not> skip_confirmation \<and> \<not> confirm db_name backup_file
              then (ValidateTools # asked, Aborted)
              else (ValidateTools # asked @ [Restore db_name backup_file],
                    case hc_restore h db_name backup_file of
                      Inl e \<Rightarrow> Failed e
                    | Inr u \<Rightarrow> Restored)))"

section \<open>Test doubles\<close>

text \<open>
  The collaborators as tests/test_cli.py mocks them: the loader returns a fixed backup
  directory and Postgres configuration, the logger set-up and \<open>perform_restore\<close> do
  nothing; the handler is represented by the configuration it was built from.
\<close>

definition mock_config :: config where
  "mock_config =
     \<lparr> cfg_host = Some ''localhost'', cfg_port = Some 5432, cfg_username = Some ''user'',
       cfg_password = Some ''pw'', cfg_database = Some ''db'', cfg_auth_database = None,
       cfg_db_path = None \<rparr>"

definition mock_collaborators :: "(unit, config) collaborators" where
  "mock_collaborators =
     \<lparr> ConfigLoader = (\<lambda>config_file. Inr ()),
       get_backup_directory = (\<lambda>cfg. Inr ''backups''),
       setup_logger = (\<lambda>log_file. Inr ()),
       get_postgres_config = (\<lambda>cfg. Inr mock_config),
       PostgresHandler = (\<lambda>c. c),
       perform_restore = (\<lambda>h name file skip. Inr ()) \<rparr>"

text \<open>A handler whose tools validate and whose restore succeeds.\<close>

definition mock_handler :: handler_contract where
  "mock_handler = \<lparr> hc_validate_tools = Inr True, hc_restore = (\<lambda>name file. Inr ()) \<rparr>"

section \<open>Properties of the filename codec\<close>

subsection \<open>The matcher\<close>

lemma lit_append: "lit p (p @ r) = Some r"
  by (simp add: lit_def)

lemma lit_SomeD: "lit p s = Some r \<Longrightarrow> s = p @ r"
  by (auto simp: lit_def split: if_splits) (metis append_take_drop_id)

lemma digits_append: "list_all is_digit d \<Longrightarrow> digits (length d) (d @ r) = Some r"
  by (induction d) auto

lemma digits_SomeD: "digits n s = Some r \<Longrightarrow> \<exists>d. s = d @ r \<and> length d = n \<and> list_all is_digit d"
proof (induction n s rule: digits.induct)
  case (1 s)
  then show ?case by simp
next
  case (2 n)
  then show ?case by simp
next
  case (3 n c cs)
  then obtain d where "cs = d @ r" "length d = n" "list_all is_digit d"
    by (auto split: if_splits)
  moreover from 3 have "is_digit c" by (auto split: if_splits)
  ultimately have "c # cs = (c # d) @ r \<and> length (c # d) = Suc n \<and> list_all is_digit (c # d)"
    by simp
  then show ?case by blast
qed

lemma digits_length: "digits n s = Some r \<Longrightarrow> length s = n + length r"
  using digits_SomeD by fastforce

lemma lit_length: "lit p s = Some r \<Longrightarrow> length s = length p + length r"
  using lit_SomeD by fastforce

lemma fixed_suffix_length: "fixed_suffix s = Some r \<Longrightarrow> length s = 22 + length r"
  unfolding fixed_suffix_def
  by (auto simp: bind_eq_Some_conv dest!: digits_length lit_length)

lemma at_end_length: "at_end r \<Longrightarrow> length r \<le> 1 \<and> (length r = 1 \<longrightarrow> last r = newline)"
  by (auto simp: at_end_def)


lemma fixed_suffix_SomeD: "fixed_suffix s = Some r \<Longrightarrow> \<exists>p. s = p @ r \<and> length p = 22"
proof -
  assume a: "fixed_suffix s = Some r"
  then have "length s = 22 + length r" by (rule fixed_suffix_length)
  moreover from a have "\<exists>p. s = p @ r"
    unfolding fixed_suffix_def
    by (auto simp: bind_eq_Some_conv dest!: digits_SomeD lit_SomeD)
  ultimately show ?thesis by auto
qed

lemma optional_seconds_SomeD:
  "do { r' \<leftarrow> lit ''-'' r; digits 2 r' } = Some r' \<Longrightarrow> \<exists>p. r = p @ r' \<and> length p = 3"
  by (auto simp: bind_eq_Some_conv dest!: digits_SomeD lit_SomeD)

lemma match_suffix_length:
  assumes "match_suffix s"
  shows "length s \<le> 26 \<and> (length s = 26 \<longrightarrow> last s = newline)"
proof -
  from assms obtain r where r: "fixed_suffix s = Some r"
    by (auto simp: match_suffix_def split: option.splits)
  then obtain p where p: "s = p @ r" "length p = 22"
    using fixed_suffix_SomeD by blast
  show ?thesis
  proof (cases "at_end r")
    case True
    with p show ?thesis by (auto simp: at_end_def)
  next
    case False
    with assms r obtain r' where r': "do { x \<leftarrow> lit ''-'' r; digits 2 x } = Some r'" "at_end r'"
      by (auto simp: match_suffix_def split: option.splits)
    then obtain q where q: "r = q @ r'" "length q = 3"
      using optional_seconds_SomeD by blast
    with p r'(2) show ?thesis by (auto simp: at_end_def)
  qed
qed


lemma digits_append_len: "length d = n \<Longrightarrow> list_all is_digit d \<Longrightarrow> digits n (d @ r) = Some r"
  using digits_append by blast

lemma is_timestamp_shape:
  assumes "is_timestamp ts"
  obtains y m d H M S where
    "ts = y @ ''-'' @ m @ ''-'' @ d @ ''_'' @ H @ ''-'' @ M @ ''-'' @ S"
    "length y = 4" "length m = 2" "length d = 2" "length H = 2" "length M = 2" "length S = 2"
    "list_all is_digit y" "list_all is_digit m" "list_all is_digit d"
    "list_all is_digit H" "list_all is_digit M" "list_all is_digit S"
  using assms unfolding is_timestamp_def
  by (auto simp: bind_eq_Some_conv dest!: digits_SomeD lit_SomeD)

lemma is_timestamp_length: "is_timestamp ts \<Longrightarrow> length ts = 19"
  by (erule is_timestamp_shape) simp

lemma is_timestamp_last: "is_timestamp ts \<Longrightarrow> is_digit (last ts)"
proof (erule is_timestamp_shape)
  fix y m d H M S :: string
  assume ts: "ts = y @ ''-'' @ m @ ''-'' @ d @ ''_'' @ H @ ''-'' @ M @ ''-'' @ S"
    and S: "length S = 2" "list_all is_digit S"
  from S(1) have "S \<noteq> []" by auto
  with ts have "last ts = last S" by simp
  moreover from S \<open>S \<noteq> []\<close> have "is_digit (last S)"
    by (simp add: list_all_iff)
  ultimately show ?thesis by simp
qed

lemma newline_not_digit: "\<not> is_digit newline"
  by (simp add: is_digit_def newline_def)

lemma match_suffix_timestamp:
  assumes "is_timestamp ts"
  shows "match_suffix (''_full_'' @ ts)"
proof (rule is_timestamp_shape [OF assms])
  fix y m d H M S :: string
  assume ts: "ts = y @ ''-'' @ m @ ''-'' @ d @ ''_'' @ H @ ''-'' @ M @ ''-'' @ S"
    and len: "length y = 4" "length m = 2" "length d = 2" "length H = 2" "length M = 2"
      "length S = 2"
    and dg: "list_all is_digit y" "list_all is_digit m" "list_all is_digit d"
      "list_all is_digit H" "list_all is_digit M" "list_all is_digit S"
  have "fixed_suffix (''_full_'' @ ts) = Some (''-'' @ S)"
    unfolding fixed_suffix_def ts
    by (simp add: lit_def digits_append_len len dg)
  moreover have "do { r' \<leftarrow> lit ''-'' (''-'' @ S); digits 2 r' } = Some []"
    using digits_append_len [of S 2 "[]"] len dg by (simp add: lit_def)
  ultimately show ?thesis
    by (simp add: match_suffix_def at_end_def)
qed

lemma no_match_longer:
  assumes "is_timestamp ts" and "r \<noteq> []"
  shows "\<not> match_suffix (r @ ''_full_'' @ ts)"
proof
  assume "match_suffix (r @ ''_full_'' @ ts)"
  then have *: "length (r @ ''_full_'' @ ts) \<le> 26 \<and>
      (length (r @ ''_full_'' @ ts) = 26 \<longrightarrow> last (r @ ''_full_'' @ ts) = newline)"
    by (rule match_suffix_length)
  from assms have len: "length (r @ ''_full_'' @ ts) = length r + 25" and "ts \<noteq> []"
    by (auto simp: is_timestamp_length dest: is_timestamp_length)
  then have "last (r @ ''_full_'' @ ts) = last ts" by simp
  moreover from assms(2) have "length r \<ge> 1" by (cases r) auto
  ultimately have "last ts = newline" using * len by auto
  with is_timestamp_last [OF assms(1)] newline_not_digit show False by simp
qed

lemma lazy_group_grows:
  assumes "is_timestamp ts" and "newline \<notin> set r"
  shows "lazy_group g (r @ ''_full_'' @ ts) = Some (g @ r)"
  using assms(2)
proof (induction r arbitrary: g)
  case Nil
  from match_suffix_timestamp [OF assms(1)] show ?case by simp
next
  case (Cons c cs)
  have "\<not> match_suffix ((c # cs) @ ''_full_'' @ ts)"
    by (rule no_match_longer [OF assms(1)]) simp
  with Cons show ?case by auto
qed

lemma re_match_postgres:
  assumes "is_timestamp ts" and "db \<noteq> []" and "newline \<notin> set db"
  shows "re_match (''postgres_'' @ db @ ''_full_'' @ ts) = Some db"
proof -
  from assms(2) obtain c cs where db: "db = c # cs" by (cases db) auto
  have "lit ''postgres_'' (''postgres_'' @ db @ ''_full_'' @ ts) = Some (db @ ''_full_'' @ ts)"
    by (rule lit_append)
  moreover from assms(3) db have "c \<noteq> newline" "newline \<notin> set cs" by auto
  moreover have "lazy_group [c] (cs @ ''_full_'' @ ts) = Some ([c] @ cs)"
    by (rule lazy_group_grows [OF assms(1) \<open>newline \<notin> set cs\<close>])
  ultimately show ?thesis
    by (simp add: re_match_def db)
qed

lemma str_remove_absent:
  assumes "old \<noteq> []" and "hd old \<notin> set s"
  shows "str_remove old (s @ t) = s @ str_remove old t"
  using assms(2)
proof (induction s)
  case Nil
  then show ?case by simp
next
  case (Cons c cs)
  from assms(1) obtain x xs where old: "old = x # xs" by (cases old) auto
  with Cons.prems have "x \<noteq> c" by auto
  then have "take (length old) (c # cs @ t) \<noteq> old" by (auto simp: old)
  with Cons show ?case by simp
qed

lemma is_digit_dig: "is_digit (dig n)"
proof -
  have "n mod 10 < length ''0123456789''" by simp
  then have "''0123456789'' ! (n mod 10) \<in> set ''0123456789''" by (rule nth_mem)
  then show ?thesis by (simp only: is_digit_def dig_def)
qed

lemma str_nat_digits: "list_all is_digit (str_nat n)"
proof (induction n rule: str_nat.induct)
  case (1 n)
  then show ?case
    by (cases "n < 10") (simp_all add: str_nat.simps [of n] is_digit_dig)
qed

lemma str_nat_length_1: "n < 10 \<Longrightarrow> length (str_nat n) = 1"
  by (simp add: str_nat.simps [of n])

lemma str_nat_length_2: "n < 100 \<Longrightarrow> length (str_nat n) \<le> 2"
  using str_nat_length_1 [of "n div 10"] by (simp add: str_nat.simps [of n])

lemma str_nat_length_3: "n < 1000 \<Longrightarrow> length (str_nat n) \<le> 3"
  using str_nat_length_2 [of "n div 10"] by (simp add: str_nat.simps [of n])

lemma str_nat_length_4: "n < 10000 \<Longrightarrow> length (str_nat n) \<le> 4"
  using str_nat_length_3 [of "n div 10"] by (simp add: str_nat.simps [of n])

lemma zero_pad_length: "length s \<le> w \<Longrightarrow> length (zero_pad w s) = w"
  by (simp add: zero_pad_def)

lemma zero_pad_digits: "list_all is_digit s \<Longrightarrow> list_all is_digit (zero_pad w s)"
proof -
  assume s: "list_all is_digit s"
  have "is_digit CHR ''0''" by (simp add: is_digit_def)
  then have "list_all is_digit (replicate (w - length s) CHR ''0'')"
    by (simp add: list_all_iff)
  with s show ?thesis by (simp add: zero_pad_def)
qed

lemma is_timestamp_strftime:
  assumes "valid_datetime t"
  shows "is_timestamp (strftime t)"
proof -
  from assms have b: "year t < 10000" "month t < 100" "day t < 100" "hour t < 100"
    "minute t < 100" "second t < 100"
    by (auto simp: valid_datetime_def)
  note len = zero_pad_length [OF str_nat_length_4 [OF b(1)]]
    zero_pad_length [OF str_nat_length_2 [OF b(2)]]
    zero_pad_length [OF str_nat_length_2 [OF b(3)]]
    zero_pad_length [OF str_nat_length_2 [OF b(4)]]
    zero_pad_length [OF str_nat_length_2 [OF b(5)]]
    zero_pad_length [OF str_nat_length_2 [OF b(6)]]
  note dg = zero_pad_digits [OF str_nat_digits]
  have "digits 2 (zero_pad 2 (str_nat (second t))) = Some []"
    using digits_append_len [of "zero_pad 2 (str_nat (second t))" 2 "[]"] len dg by simp
  then show ?thesis
    unfolding is_timestamp_def strftime_def
    by (simp add: lit_def digits_append_len len dg)
qed

lemma length_strftime: "valid_datetime t \<Longrightarrow> length (strftime t) = 19"
  by (rule is_timestamp_length [OF is_timestamp_strftime])

lemma dot_not_digit: "\<not> is_digit CHR ''.''"
  by (simp add: is_digit_def)

lemma digits_no_dot: "list_all is_digit d \<Longrightarrow> CHR ''.'' \<notin> set d"
  using dot_not_digit by (auto simp: list_all_iff)

lemma is_timestamp_no_dot: "is_timestamp ts \<Longrightarrow> CHR ''.'' \<notin> set ts"
  by (erule is_timestamp_shape) (simp add: digits_no_dot)

lemma str_contains_prefix: "str_contains (a @ b) s \<Longrightarrow> str_contains a s"
proof (induction s)
  case Nil
  then show ?case by simp
next
  case (Cons c cs)
  show ?case
  proof (cases "take (length (a @ b)) (c # cs) = a @ b")
    case True
    then have "take (length a) (take (length (a @ b)) (c # cs)) = take (length a) (a @ b)"
      by simp
    then have "take (length a) (c # cs) = a"
      by (simp add: min_def)
    then show ?thesis by simp
  next
    case False
    with Cons show ?thesis by simp
  qed
qed

lemma take_append_short: "n \<le> length xs \<Longrightarrow> take n (xs @ ys) = take n xs"
  by simp

lemma take_reaches_next:
  assumes "take n (xs @ c # t) = old" and "length old = n" and "length xs < n"
  shows "c \<in> set old"
proof -
  from assms(3) have "take n (xs @ c # t) = xs @ c # take (n - Suc (length xs)) t"
    by (simp add: take_Cons')
  with assms(1) show ?thesis
    by (metis in_set_conv_decomp)
qed

lemma str_remove_no_occurrence:
  assumes "old \<noteq> []" and "c \<notin> set old" and "\<not> str_contains old s"
  shows "str_remove old (s @ c # t) = s @ str_remove old (c # t)"
  using assms(3)
proof (induction s)
  case Nil
  then show ?case by simp
next
  case (Cons d ds)
  then have here: "take (length old) (d # ds) \<noteq> old" and rest: "\<not> str_contains old ds"
    by simp_all
  have "take (length old) ((d # ds) @ c # t) \<noteq> old"
  proof
    assume eq: "take (length old) ((d # ds) @ c # t) = old"
    show False
    proof (cases "length old \<le> length (d # ds)")
      case True
      then have "take (length old) ((d # ds) @ c # t) = take (length old) (d # ds)"
        by (rule take_append_short)
      with eq here show False by simp
    next
      case False
      then have "length (d # ds) < length old" by simp
      from take_reaches_next [OF eq refl this] assms(2) show False by simp
    qed
  qed
  then have "take (length old) (d # ds @ c # t) \<noteq> old" by simp
  with Cons.IH [OF rest] show ?case by simp
qed

lemma str_remove_frame:
  assumes "old \<noteq> []" and "hd old = CHR ''.''" and "CHR ''_'' \<notin> set old"
    and "\<not> str_contains old db" and "CHR ''.'' \<notin> set ts"
  shows "str_remove old (''postgres_'' @ db @ ''_full_'' @ ts @ ext) =
         ''postgres_'' @ db @ ''_full_'' @ ts @ str_remove old ext"
proof -
  have p: "hd old \<notin> set ''postgres_''" using assms(2) by simp
  have f: "hd old \<notin> set (''_full_'' @ ts)" using assms(2,5) by simp
  have "str_remove old (''postgres_'' @ db @ ''_full_'' @ ts @ ext) =
        ''postgres_'' @ str_remove old (db @ ''_full_'' @ ts @ ext)"
    by (rule str_remove_absent [OF assms(1) p])
  also have "str_remove old (db @ ''_full_'' @ ts @ ext) =
        db @ str_remove old (''_full_'' @ ts @ ext)"
    using str_remove_no_occurrence [OF assms(1,3,4), of "''full_'' @ ts @ ext"] by simp
  also have "str_remove old (''_full_'' @ ts @ ext) = (''_full_'' @ ts) @ str_remove old ext"
    using str_remove_absent [OF assms(1) f, of ext] by simp
  finally show ?thesis by simp
qed

lemma strip_extensions_name:
  assumes "\<not> str_contains ''.sql'' db" and "\<not> str_contains ''.tar'' db"
    and "CHR ''.'' \<notin> set ts"
  shows "str_remove ''.sql'' (str_remove ''.tar'' (str_remove ''.tar.gz''
           (''postgres_'' @ db @ ''_full_'' @ ts @ ''.sql''))) = ''postgres_'' @ db @ ''_full_'' @ ts"
    and "str_remove ''.sql'' (str_remove ''.tar'' (str_remove ''.tar.gz''
           (''postgres_'' @ db @ ''_full_'' @ ts @ ''.sql.tar''))) = ''postgres_'' @ db @ ''_full_'' @ ts"
    and "str_remove ''.sql'' (str_remove ''.tar'' (str_remove ''.tar.gz''
           (''postgres_'' @ db @ ''_full_'' @ ts @ ''.sql.tar.gz''))) = ''postgres_'' @ db @ ''_full_'' @ ts"
proof -
  have "\<not> str_contains (''.tar'' @ ''.gz'') db"
    using assms(2) str_contains_prefix by blast
  then have gz: "\<not> str_contains ''.tar.gz'' db" by simp
  have a: "str_remove ''.tar.gz'' (''postgres_'' @ db @ ''_full_'' @ ts @ ext) =
      ''postgres_'' @ db @ ''_full_'' @ ts @ str_remove ''.tar.gz'' ext" for ext
    by (rule str_remove_frame [OF _ _ _ gz assms(3)]) simp_all
  have b: "str_remove ''.tar'' (''postgres_'' @ db @ ''_full_'' @ ts @ ext) =
      ''postgres_'' @ db @ ''_full_'' @ ts @ str_remove ''.tar'' ext" for ext
    by (rule str_remove_frame [OF _ _ _ assms(2,3)]) simp_all
  have c: "str_remove ''.sql'' (''postgres_'' @ db @ ''_full_'' @ ts @ ext) =
      ''postgres_'' @ db @ ''_full_'' @ ts @ str_remove ''.sql'' ext" for ext
    by (rule str_remove_frame [OF _ _ _ assms(1,3)]) simp_all
  have e1: "str_remove ''.tar.gz'' ''.sql'' = ''.sql''" "str_remove ''.tar'' ''.sql'' = ''.sql''"
    "str_remove ''.sql'' ''.sql'' = []" by simp_all
  have e2: "str_remove ''.tar.gz'' ''.sql.tar'' = ''.sql.tar''"
    "str_remove ''.tar'' ''.sql.tar'' = ''.sql''" by simp_all
  have e3: "str_remove ''.tar.gz'' ''.sql.tar.gz'' = ''.sql''" by simp
  show "str_remove ''.sql'' (str_remove ''.tar'' (str_remove ''.tar.gz''
           (''postgres_'' @ db @ ''_full_'' @ ts @ ''.sql''))) = ''postgres_'' @ db @ ''_full_'' @ ts"
    by (simp only: a b c e1 append_Nil2)
  show "str_remove ''.sql'' (str_remove ''.tar'' (str_remove ''.tar.gz''
           (''postgres_'' @ db @ ''_full_'' @ ts @ ''.sql.tar''))) = ''postgres_'' @ db @ ''_full_'' @ ts"
    by (simp only: a b c e1 e2 append_Nil2)
  show "str_remove ''.sql'' (str_remove ''.tar'' (str_remove ''.tar.gz''
           (''postgres_'' @ db @ ''_full_'' @ ts @ ''.sql.tar.gz''))) = ''postgres_'' @ db @ ''_full_'' @ ts"
    by (simp only: a b c e1 e3 append_Nil2)
qed

lemma extract_db_name_postgres:
  assumes "is_timestamp ts" and "db \<noteq> []" and "newline \<notin> set db"
    and "\<not> str_contains ''.sql'' db" and "\<not> str_contains ''.tar'' db"
  shows "extract_db_name_from_filename (''postgres_'' @ db @ ''_full_'' @ ts @ ''.sql'') = Some db"
    and "extract_db_name_from_filename (''postgres_'' @ db @ ''_full_'' @ ts @ ''.sql.tar'') = Some db"
    and "extract_db_name_from_filename (''postgres_'' @ db @ ''_full_'' @ ts @ ''.sql.tar.gz'') = Some db"
proof -
  note dot = is_timestamp_no_dot [OF assms(1)]
  note strip = strip_extensions_name [OF assms(4,5) dot]
  have m: "re_match (''postgres_'' @ db @ ''_full_'' @ ts) = Some db"
    by (rule re_match_postgres [OF assms(1,2,3)])
  show "extract_db_name_from_filename (''postgres_'' @ db @ ''_full_'' @ ts @ ''.sql'') = Some db"
    unfolding extract_db_name_from_filename_def strip(1)
    by (simp only: Let_def m option.case)
  show "extract_db_name_from_filename (''postgres_'' @ db @ ''_full_'' @ ts @ ''.sql.tar'') = Some db"
    unfolding extract_db_name_from_filename_def strip(2)
    by (simp only: Let_def m option.case)
  show "extract_db_name_from_filename (''postgres_'' @ db @ ''_full_'' @ ts @ ''.sql.tar.gz'') = Some db"
    unfolding extract_db_name_from_filename_def strip(3)
    by (simp only: Let_def m option.case)
qed

subsection \<open>Claims about the codec\<close>

text \<open>
  C8. The decode operation agrees with the two documented cases: the name
  \<open>postgres_my_production_db_full_2026-01-07_23-45-12.sql.tar\<close> decodes to
  \<open>my_production_db\<close> (the lazy match keeps the underscores of the database name), and
  \<open>random_file.sql\<close> decodes to nothing.
\<close>

theorem decode_documented_cases:
  "extract_db_name_from_filename ''postgres_my_production_db_full_2026-01-07_23-45-12.sql.tar''
     = Some ''my_production_db'' \<and>
   extract_db_name_from_filename ''random_file.sql'' = None"
  by code_simp

text \<open>
  C1, as stated, fails: the decoder accepts the \<open>postgres\<close> tag only, so the names the
  MySQL, MongoDB and SQLite handlers generate decode to nothing; and the extensions are
  removed wherever they occur, so a database name holding \<open>.sql\<close> or \<open>.tar\<close> loses it.
\<close>

theorem roundtrip_counterexample:
  "extract_db_name_from_filename
     (MySQL_get_default_backup_name
        \<lparr>year = 2026, month = 1, day = 7, hour = 23, minute = 45, second = 12\<rparr>
        \<lparr>host = ''localhost'', port = 3306, username = ''root'', password = ''password'',
          default_database = ''test_db''\<rparr> ''mydb'') = None \<and>
   extract_db_name_from_filename
     (MongoDB_get_default_backup_name
        \<lparr>year = 2026, month = 1, day = 7, hour = 23, minute = 45, second = 12\<rparr>
        \<lparr>host = ''localhost'', port = 27017, username = ''admin'', password = ''password'',
          database = ''test_db'', auth_db = ''admin''\<rparr> ''mydb'') = None \<and>
   extract_db_name_from_filename
     (SQLite_get_default_backup_name
        \<lparr>year = 2026, month = 1, day = 7, hour = 23, minute = 45, second = 12\<rparr>
        \<lparr>db_path = ''test.db''\<rparr> ''mydb'') = None \<and>
   extract_db_name_from_filename ''postgres_my.sql_full_2026-01-07_23-45-12.sql'' = Some ''my'' \<and>
   extract_db_name_from_filename ''postgres_v1.tar_full_2026-01-07_23-45-12.sql'' = Some ''v1''"
  by code_simp

text \<open>
  C1, amended. For the \<open>postgres\<close> tag, the only one the decoder accepts, every database
  name that is not empty, holds no line feed and holds neither \<open>.sql\<close> nor \<open>.tar\<close>, and
  every timestamp of the shape \<open>YYYY-MM-DD_HH-MM-SS\<close>, decoding the artifact name
  \<open>postgres_<db_name>_full_<timestamp>.sql\<close>, with or without the compression suffix
  \<open>.tar.gz\<close>, gives the database name back. Other dots in the database name, and a
  timestamp-like substring in it, do no harm.
\<close>

theorem postgres_roundtrip:
  assumes "db_name \<noteq> []" and "newline \<notin> set db_name"
    and "\<not> str_contains ''.sql'' db_name" and "\<not> str_contains ''.tar'' db_name"
    and "is_timestamp ts"
  shows "extract_db_name_from_filename (''postgres_'' @ db_name @ ''_full_'' @ ts @ ''.sql'')
           = Some db_name \<and>
         extract_db_name_from_filename
           (''postgres_'' @ db_name @ ''_full_'' @ ts @ ''.sql.tar.gz'') = Some db_name"
  using extract_db_name_postgres(1,3) [OF assms(5,1,2,3,4)] by simp

theorem postgres_roundtrip_witness:
  "extract_db_name_from_filename
     (''postgres_'' @ ''my.db_full_2026-01-07_23-45-12_v1.2'' @ ''_full_'' @
      ''2026-01-07_23-45-12'' @ ''.sql'') = Some ''my.db_full_2026-01-07_23-45-12_v1.2'' \<and>
   extract_db_name_from_filename
     (''postgres_'' @ ''my.db_full_2026-01-07_23-45-12_v1.2'' @ ''_full_'' @
      ''2026-01-07_23-45-12'' @ ''.sql.tar.gz'') = Some ''my.db_full_2026-01-07_23-45-12_v1.2''"
proof -
  have 1: "''my.db_full_2026-01-07_23-45-12_v1.2'' \<noteq> []" by simp
  have 2: "newline \<notin> set ''my.db_full_2026-01-07_23-45-12_v1.2''" by (simp add: newline_def)
  have 3: "\<not> str_contains ''.sql'' ''my.db_full_2026-01-07_23-45-12_v1.2''" by simp
  have 4: "\<not> str_contains ''.tar'' ''my.db_full_2026-01-07_23-45-12_v1.2''" by simp
  have 5: "is_timestamp ''2026-01-07_23-45-12''" by code_simp
  show ?thesis by (rule postgres_roundtrip [OF 1 2 3 4 5])
qed

section \<open>Properties of the handlers\<close>

text \<open>
  C2, as stated, fails: the SQLite handler keeps the logical name only when it is neither
  empty nor \<open>sqlite\<close>; otherwise the name part is the stem of the configured path.
\<close>

theorem default_name_counterexample:
  "SQLite_get_default_backup_name
     \<lparr>year = 2026, month = 1, day = 7, hour = 23, minute = 45, second = 12\<rparr>
     \<lparr>db_path = ''test.db''\<rparr> ''sqlite'' = ''sqlite_test_full_2026-01-07_23-45-12.db'' \<and>
   \<not> backup_name_form ''sqlite'' ''sqlite'' ''2026-01-07_23-45-12'' ''db''
     (SQLite_get_default_backup_name
        \<lparr>year = 2026, month = 1, day = 7, hour = 23, minute = 45, second = 12\<rparr>
        \<lparr>db_path = ''test.db''\<rparr> ''sqlite'')"
  by code_simp

text \<open>
  C2, amended. At every wall-clock time \<open>now\<close>, the MySQL handler names the backup of
  every logical database name \<open>mysql_<db_name>_full_<YYYY-MM-DD>_<HH-MM-SS>.sql\<close>, and the
  SQLite handler names it \<open>sqlite_<name>_full_<YYYY-MM-DD>_<HH-MM-SS>.db\<close>, where \<open><name>\<close>
  is the logical name when that is neither empty nor \<open>sqlite\<close>, and the stem of the
  configured database path otherwise. The timestamp is \<open>now\<close> at second precision.
\<close>

theorem default_backup_name_form:
  assumes "valid_datetime now"
  shows "backup_name_form ''mysql'' db_name (strftime now) ''sql''
           (MySQL_get_default_backup_name now hm db_name) \<and>
         backup_name_form ''sqlite''
           (if db_name \<noteq> [] \<and> db_name \<noteq> ''sqlite'' then db_name else path_stem (db_path hs))
           (strftime now) ''db''
           (SQLite_get_default_backup_name now hs db_name)"
  using is_timestamp_strftime [OF assms]
  by (simp add: backup_name_form_def MySQL_get_default_backup_name_def
      SQLite_get_default_backup_name_def)

theorem default_backup_name_form_witness:
  "backup_name_form ''mysql'' ''test_db''
     (strftime \<lparr>year = 2026, month = 1, day = 7, hour = 23, minute = 45, second = 12\<rparr>) ''sql''
     (MySQL_get_default_backup_name
        \<lparr>year = 2026, month = 1, day = 7, hour = 23, minute = 45, second = 12\<rparr>
        \<lparr>host = ''localhost'', port = 3306, username = ''root'', password = ''password'',
          default_database = ''test_db''\<rparr> ''test_db'') \<and>
   backup_name_form ''sqlite'' ''test_db''
     (strftime \<lparr>year = 2026, month = 1, day = 7, hour = 23, minute = 45, second = 12\<rparr>) ''db''
     (SQLite_get_default_backup_name
        \<lparr>year = 2026, month = 1, day = 7, hour = 23, minute = 45, second = 12\<rparr>
        \<lparr>db_path = ''test.db''\<rparr> ''test_db'')"
proof -
  have v: "valid_datetime \<lparr>year = 2026, month = 1, day = 7, hour = 23, minute = 45, second = 12\<rparr>"
    by (simp add: valid_datetime_def)
  show ?thesis
    using default_backup_name_form [OF v, of "''test_db''"
        "\<lparr>host = ''localhost'', port = 3306, username = ''root'', password = ''password'',
          default_database = ''test_db''\<rparr>" "\<lparr>db_path = ''test.db''\<rparr>"]
    by simp
qed

lemma MongoDB_default_name_example:
  "MongoDB_get_default_backup_name
     \<lparr>year = 2026, month = 1, day = 7, hour = 23, minute = 45, second = 12\<rparr>
     \<lparr>host = ''localhost'', port = 27017, username = ''admin'', password = ''password'',
       database = ''test_db'', auth_db = ''admin''\<rparr> ''test_db''
   = ''mongo_test_db_2026-01-07_23-45-12.archive''"
  by code_simp

section \<open>Properties of the factory\<close>

lemma handler_keys: "map fst (handlers P) = supported_tags"
  by (simp add: handlers_def supported_tags_def)

lemma supported_tags_rendering:
  "repr_list supported_tags =
     ''['' @ [CHR 0x27] @ ''postgres'' @ [CHR 0x27] @ '', '' @ [CHR 0x27] @ ''mysql'' @ [CHR 0x27] @
     '', '' @ [CHR 0x27] @ ''sqlite'' @ [CHR 0x27] @ '', '' @ [CHR 0x27] @ ''mongodb'' @
     [CHR 0x27] @ '']''"
  by (simp add: repr_list_def repr_str_def supported_tags_def)

text \<open>
  C3. The factory is total over the closed set of tags: for each of \<open>postgres\<close>, \<open>mysql\<close>,
  \<open>sqlite\<close> and \<open>mongodb\<close> it returns a handler of the variant registered under that
  tag, and for any other tag it raises \<open>ValueError\<close> with the message
  \<open>Unsupported database type: <tag>. Supported types: ['postgres', 'mysql', 'sqlite',
  'mongodb']\<close>, which names the offending tag and lists the supported tags.
\<close>

theorem get_handler_total:
  "(db_type \<in> set supported_tags \<longrightarrow>
      (\<exists>h. get_handler P db_type c = Inr h \<and> variant_tag h = db_type)) \<and>
   (db_type \<notin> set supported_tags \<longrightarrow>
      get_handler P db_type c =
        Inl (ValueError (''Unsupported database type: '' @ db_type @
               ''. Supported types: ['' @
               [CHR 0x27] @ ''postgres'' @ [CHR 0x27] @ '', '' @
               [CHR 0x27] @ ''mysql'' @ [CHR 0x27] @ '', '' @
               [CHR 0x27] @ ''sqlite'' @ [CHR 0x27] @ '', '' @
               [CHR 0x27] @ ''mongodb'' @ [CHR 0x27] @ '']'')))"
proof (cases "db_type \<in> set supported_tags")
  case True
  then consider "db_type = ''postgres''" | "db_type = ''mysql''" | "db_type = ''sqlite''"
    | "db_type = ''mongodb''"
    by (auto simp: supported_tags_def)
  then have "\<exists>h. get_handler P db_type c = Inr h \<and> variant_tag h = db_type"
    by cases (simp_all add: get_handler_def handlers_def)
  with True show ?thesis by simp
next
  case False
  then have "map_of (handlers P) db_type = None"
    by (simp add: handlers_def supported_tags_def)
  then have "get_handler P db_type c =
      Inl (ValueError (''Unsupported database type: '' @ db_type @
             ''. Supported types: '' @ repr_list supported_tags))"
    by (simp add: get_handler_def handler_keys)
  with False show ?thesis
    by (simp add: supported_tags_rendering)
qed

theorem get_handler_total_witness:
  "(\<exists>h. get_handler (\<lambda>c. ()) ''mysql''
           \<lparr>cfg_host = Some ''localhost'', cfg_port = None, cfg_username = None,
             cfg_password = None, cfg_database = None, cfg_auth_database = None,
             cfg_db_path = None\<rparr> = Inr h \<and> variant_tag h = ''mysql'') \<and>
   get_handler (\<lambda>c. ()) ''invalid''
     \<lparr>cfg_host = None, cfg_port = None, cfg_username = None, cfg_password = None,
       cfg_database = None, cfg_auth_database = None, cfg_db_path = None\<rparr> =
     Inl (ValueError (''Unsupported database type: '' @ ''invalid'' @
            ''. Supported types: ['' @
            [CHR 0x27] @ ''postgres'' @ [CHR 0x27] @ '', '' @
            [CHR 0x27] @ ''mysql'' @ [CHR 0x27] @ '', '' @
            [CHR 0x27] @ ''sqlite'' @ [CHR 0x27] @ '', '' @
            [CHR 0x27] @ ''mongodb'' @ [CHR 0x27] @ '']''))"
proof -
  have 1: "''mysql'' \<in> set supported_tags" by (simp add: supported_tags_def)
  have 2: "''invalid'' \<notin> set supported_tags" by (simp add: supported_tags_def)
  from 1 2 show ?thesis
    using get_handler_total [of "''mysql''" "\<lambda>c. ()"
        "\<lparr>cfg_host = Some ''localhost'', cfg_port = None, cfg_username = None,
             cfg_password = None, cfg_database = None, cfg_auth_database = None,
             cfg_db_path = None\<rparr>"]
      get_handler_total [of "''invalid''" "\<lambda>c. ()"
        "\<lparr>cfg_host = None, cfg_port = None, cfg_username = None, cfg_password = None,
       cfg_database = None, cfg_auth_database = None, cfg_db_path = None\<rparr>"]
    by blast
qed

section \<open>Properties of the MySQL and MongoDB handlers\<close>

lemma str_int_3306: "str_int 3306 = ''3306''"
  by (simp add: str_int_def str_nat.simps dig_def)

lemma str_int_27017: "str_int 27017 = ''27017''"
  by (simp add: str_int_def str_nat.simps dig_def)

text \<open>
  C6. Every MySQL operation that spawns a tool (connection probe, existence check, backup,
  restore) builds the same argument list whatever the configured password is; the
  password reaches the child process through the environment only, as \<open>MYSQL_PWD\<close> added
  to a copy of \<open>os.environ\<close> (nothing is added for an empty password).
\<close>

theorem mysql_password_only_in_environment:
  "map argv (fst (MySQL_validate_connection run environ (h\<lparr>password := p\<rparr>))) =
   map argv (fst (MySQL_validate_connection run' environ (h\<lparr>password := p'\<rparr>))) \<and>
   map argv (fst (MySQL_database_exists run environ (h\<lparr>password := p\<rparr>) db)) =
   map argv (fst (MySQL_database_exists run' environ (h\<lparr>password := p'\<rparr>) db)) \<and>
   map argv (fst (MySQL_backup run environ (h\<lparr>password := p\<rparr>) db output_file)) =
   map argv (fst (MySQL_backup run' environ (h\<lparr>password := p'\<rparr>) db output_file)) \<and>
   map argv (fst (MySQL_restore open_file run environ (h\<lparr>password := p\<rparr>) db input_file)) =
   map argv (fst (MySQL_restore open_file run' environ (h\<lparr>password := p'\<rparr>) db input_file)) \<and>
   set (map env
     (fst (MySQL_validate_connection run environ (h\<lparr>password := p\<rparr>)) @
      fst (MySQL_database_exists run environ (h\<lparr>password := p\<rparr>) db) @
      fst (MySQL_backup run environ (h\<lparr>password := p\<rparr>) db output_file) @
      fst (MySQL_restore open_file run environ (h\<lparr>password := p\<rparr>) db input_file)))
   = {Some (if p = [] then environ else environ(''MYSQL_PWD'' \<mapsto> p))}"
  by (simp add: MySQL_validate_connection_def MySQL_database_exists_def MySQL_backup_def
      MySQL_restore_def MySQL_get_env_def Let_def split: option.split)

theorem mysql_password_only_in_environment_witness:
  "map argv (fst (MySQL_validate_connection (\<lambda>c. Inr []) Map.empty
      (\<lparr>host = ''localhost'', port = 3306, username = ''root'', password = [],
        default_database = ''test_db''\<rparr>\<lparr>password := ''password''\<rparr>))) =
   map argv (fst (MySQL_validate_connection (\<lambda>c. Inr []) Map.empty
      (\<lparr>host = ''localhost'', port = 3306, username = ''root'', password = [],
        default_database = ''test_db''\<rparr>\<lparr>password := ''hunter2''\<rparr>)))"
  using mysql_password_only_in_environment [where run = "\<lambda>c. Inr []" and environ = Map.empty
      and h = "\<lparr>host = ''localhost'', port = 3306, username = ''root'', password = [],
        default_database = ''test_db''\<rparr>" and p = "''password''" and run' = "\<lambda>c. Inr []"
      and p' = "''hunter2''"]
  by blast

lemma MongoDB_base_cmd_password:
  "username h \<noteq> [] \<Longrightarrow>
     take 2 (drop 7 (MongoDB_build_base_cmd h tool @ rest)) = [''--password'', password h]"
  by (simp add: MongoDB_build_base_cmd_def)

lemma MongoDB_base_cmd_differs:
  "username h \<noteq> [] \<Longrightarrow> p \<noteq> p' \<Longrightarrow>
     MongoDB_build_base_cmd (h\<lparr>password := p\<rparr>) tool @ rest \<noteq>
     MongoDB_build_base_cmd (h\<lparr>password := p'\<rparr>) tool @ rest'"
  by (simp add: MongoDB_build_base_cmd_def)

lemma MongoDB_base_cmd_differs_plain:
  "username h \<noteq> [] \<Longrightarrow> p \<noteq> p' \<Longrightarrow>
     MongoDB_build_base_cmd (h\<lparr>password := p\<rparr>) tool \<noteq>
     MongoDB_build_base_cmd (h\<lparr>password := p'\<rparr>) tool"
  by (simp add: MongoDB_build_base_cmd_def)

text \<open>
  C10. When a user name is configured, every MongoDB operation that spawns a tool (the
  connection probe when \<open>mongosh\<close> is installed, backup, restore) puts the configured
  password on the command line, right after the flag \<open>--password\<close>; two different
  passwords therefore give two different argument lists.
\<close>

theorem mongodb_password_in_argv:
  assumes "username h \<noteq> []" and "which ''mongosh''" and "p \<noteq> p'"
  shows "map (\<lambda>c. take 2 (drop 7 (argv c))) (fst (MongoDB_validate_connection which run h)) =
           [[''--password'', password h]] \<and>
         map (\<lambda>c. take 2 (drop 7 (argv c))) (fst (MongoDB_backup run h db output_file)) =
           [[''--password'', password h]] \<and>
         map (\<lambda>c. take 2 (drop 7 (argv c))) (fst (MongoDB_restore run h db input_file)) =
           [[''--password'', password h]] \<and>
         map argv (fst (MongoDB_validate_connection which run (h\<lparr>password := p\<rparr>))) \<noteq>
         map argv (fst (MongoDB_validate_connection which run' (h\<lparr>password := p'\<rparr>))) \<and>
         map argv (fst (MongoDB_backup run (h\<lparr>password := p\<rparr>) db output_file)) \<noteq>
         map argv (fst (MongoDB_backup run' (h\<lparr>password := p'\<rparr>) db output_file)) \<and>
         map argv (fst (MongoDB_restore run (h\<lparr>password := p\<rparr>) db input_file)) \<noteq>
         map argv (fst (MongoDB_restore run' (h\<lparr>password := p'\<rparr>) db input_file))"
proof -
  have u: "username (h\<lparr>password := p\<rparr>) \<noteq> []" "username (h\<lparr>password := p'\<rparr>) \<noteq> []"
    using assms(1) by simp_all
  have a: "map (\<lambda>c. take 2 (drop 7 (argv c))) (fst (MongoDB_validate_connection which run h)) =
           [[''--password'', password h]]"
    using assms(2) MongoDB_base_cmd_password [OF assms(1)]
    by (simp add: MongoDB_validate_connection_def Let_def)
  have b: "map (\<lambda>c. take 2 (drop 7 (argv c))) (fst (MongoDB_backup run h db output_file)) =
           [[''--password'', password h]]"
    using MongoDB_base_cmd_password [OF assms(1)]
    by (simp add: MongoDB_backup_def Let_def)
  have c: "map (\<lambda>c. take 2 (drop 7 (argv c))) (fst (MongoDB_restore run h db input_file)) =
           [[''--password'', password h]]"
    using MongoDB_base_cmd_password [OF assms(1)]
    by (simp add: MongoDB_restore_def Let_def)
  have d: "map argv (fst (MongoDB_validate_connection which run (h\<lparr>password := p\<rparr>))) \<noteq>
         map argv (fst (MongoDB_validate_connection which run' (h\<lparr>password := p'\<rparr>)))"
    using assms(2) MongoDB_base_cmd_differs_plain [OF assms(1,3)]
    by (simp add: MongoDB_validate_connection_def Let_def)
  have e: "map argv (fst (MongoDB_backup run (h\<lparr>password := p\<rparr>) db output_file)) \<noteq>
         map argv (fst (MongoDB_backup run' (h\<lparr>password := p'\<rparr>) db output_file))"
    using MongoDB_base_cmd_differs [OF assms(1,3)]
    by (simp add: MongoDB_backup_def Let_def)
  have f: "map argv (fst (MongoDB_restore run (h\<lparr>password := p\<rparr>) db input_file)) \<noteq>
         map argv (fst (MongoDB_restore run' (h\<lparr>password := p'\<rparr>) db input_file))"
    using MongoDB_base_cmd_differs_plain [OF assms(1,3)]
    by (simp add: MongoDB_restore_def Let_def)
  from a b c d e f show ?thesis by blast
qed

theorem mongodb_password_in_argv_witness:
  "map argv (fst (MongoDB_backup (\<lambda>c. Inr [])
      \<lparr>host = ''localhost'', port = 27017, username = ''admin'', password = ''password'',
        database = ''test_db'', auth_db = ''admin''\<rparr> ''test_db'' ''backup.archive'')) =
     [[''mongodump'', ''--host'', ''localhost'', ''--port'', ''27017'', ''--username'', ''admin'',
       ''--password'', ''password'', ''--authenticationDatabase'', ''admin'',
       ''--archive=backup.archive'', ''--gzip'', ''--db'', ''test_db'']] \<and>
   map (\<lambda>c. take 2 (drop 7 (argv c)))
     (fst (MongoDB_backup (\<lambda>c. Inr [])
        \<lparr>host = ''localhost'', port = 27017, username = ''admin'', password = ''password'',
          database = ''test_db'', auth_db = ''admin''\<rparr> ''test_db'' ''backup.archive'')) =
     [[''--password'', ''password'']] \<and>
   map argv (fst (MongoDB_backup (\<lambda>c. Inr [])
      (\<lparr>host = ''localhost'', port = 27017, username = ''admin'', password = ''password'',
        database = ''test_db'', auth_db = ''admin''\<rparr>\<lparr>password := ''password''\<rparr>)
      ''test_db'' ''backup.archive'')) \<noteq>
   map argv (fst (MongoDB_backup (\<lambda>c. Inr [])
      (\<lparr>host = ''localhost'', port = 27017, username = ''admin'', password = ''password'',
        database = ''test_db'', auth_db = ''admin''\<rparr>\<lparr>password := ''hunter2''\<rparr>)
      ''test_db'' ''backup.archive''))"
proof -
  let ?h = "\<lparr>host = ''localhost'', port = 27017, username = ''admin'', password = ''password'',
        database = ''test_db'', auth_db = ''admin''\<rparr>"
  have 1: "username ?h \<noteq> []" by simp
  have 2: "(\<lambda>t. True) ''mongosh''" by simp
  have 3: "''password'' \<noteq> ''hunter2''" by simp
  have 4: "map argv (fst (MongoDB_backup (\<lambda>c. Inr []) ?h ''test_db'' ''backup.archive'')) =
     [[''mongodump'', ''--host'', ''localhost'', ''--port'', ''27017'', ''--username'', ''admin'',
       ''--password'', ''password'', ''--authenticationDatabase'', ''admin'',
       ''--archive=backup.archive'', ''--gzip'', ''--db'', ''test_db'']]"
    by (simp add: MongoDB_backup_def MongoDB_build_base_cmd_def str_int_27017 Let_def)
  from 4 mongodb_password_in_argv [OF 1 2 3, where run = "\<lambda>c. Inr []" and run' = "\<lambda>c. Inr []"
      and db = "''test_db''" and output_file = "''backup.archive''"]
  show ?thesis by simp
qed

section \<open>Timeouts\<close>

text \<open>
  Every call of an external tool by the MySQL and MongoDB handlers is given a timeout:
  3600 for backup and restore, 10 for the connection probes and the existence check.
  (Restore spawns nothing when the backup file does not open, the MongoDB probe nothing
  when \<open>mongosh\<close> is not installed.)
\<close>

lemma external_tool_timeouts:
  "map timeout (fst (MySQL_validate_connection run environ hm)) = [Some 10] \<and>
   map timeout (fst (MySQL_database_exists run environ hm db)) = [Some 10] \<and>
   map timeout (fst (MySQL_backup run environ hm db output_file)) = [Some 3600] \<and>
   map timeout (fst (MySQL_restore open_file run environ hm db input_file)) =
     (if open_file input_file = None then [Some 3600] else []) \<and>
   map timeout (fst (MongoDB_validate_connection which run hg)) =
     (if which ''mongosh'' then [Some 10] else []) \<and>
   map timeout (fst (MongoDB_backup run hg db output_file)) = [Some 3600] \<and>
   map timeout (fst (MongoDB_restore run hg db input_file)) = [Some 3600]"
  by (simp add: MySQL_validate_connection_def MySQL_database_exists_def MySQL_backup_def
      MySQL_restore_def MongoDB_validate_connection_def MongoDB_backup_def MongoDB_restore_def
      Let_def split: option.split)

text \<open>
  What each operation returns when the timeout of its call expires: the connection probes
  have a clause of their own for \<open>TimeoutExpired\<close>, the MongoDB backup and restore let the
  exception through, the MySQL backup and restore catch it with every other exception.
\<close>

lemma timeout_expiry_results:
  assumes "\<And>c. run c = Inl (TimeoutExpired s)"
    and "open_file input_file = None" and "which ''mongosh''"
  shows "snd (MySQL_validate_connection run environ hm) =
           Inl (RuntimeError (''Connection timeout to MySQL at '' @ host hm @ '':'' @
              str_int (port hm) @
              ''. Check that the server is running and network is accessible.''))"
    and "snd (MongoDB_validate_connection which run hg) =
           Inl (RuntimeError (''Connection timeout to MongoDB at '' @ host hg @ '':'' @
              str_int (port hg)))"
    and "snd (MongoDB_backup run hg db output_file) = Inl (TimeoutExpired s)"
    and "snd (MongoDB_restore run hg db input_file) = Inl (TimeoutExpired s)"
    and "snd (MySQL_backup run environ hm db output_file) =
           Inl (RuntimeError (''Unexpected error during backup: '' @ s))"
    and "snd (MySQL_restore open_file run environ hm db input_file) =
           Inl (RuntimeError (''Unexpected error during restore: '' @ s))"
  using assms(2,3)
  by (simp_all add: MySQL_validate_connection_def MySQL_backup_def MySQL_restore_def
      MongoDB_validate_connection_def MongoDB_backup_def MongoDB_restore_def Let_def assms(1))

lemma MySQL_backup_restore_unexpected:
  assumes "\<And>c. run c = Inl (OtherException s)" and "open_file input_file = None"
  shows "snd (MySQL_backup run environ hm db output_file) =
           Inl (RuntimeError (''Unexpected error during backup: '' @ s))"
    and "snd (MySQL_restore open_file run environ hm db input_file) =
           Inl (RuntimeError (''Unexpected error during restore: '' @ s))"
  using assms(2)
  by (simp_all add: MySQL_backup_def MySQL_restore_def Let_def assms(1))

text \<open>
  C7. The backup and the restore of the MySQL handler are called with the timeout 3600,
  but when that bound expires they do not fail with an error classified as a timeout:
  the \<open>TimeoutExpired\<close> exception is reported as \<open>Unexpected error during backup\<close> (or
  \<open>restore\<close>), exactly as any other unexpected exception is, whereas the connection probe
  of the same handler reports \<open>Connection timeout\<close>.
\<close>

theorem mysql_backup_restore_timeout_unclassified:
  "map timeout (fst (MySQL_backup (\<lambda>c. Inl (TimeoutExpired ''timed out after 3600 seconds''))
      Map.empty
      \<lparr>host = ''localhost'', port = 3306, username = ''root'', password = ''password'',
        default_database = ''test_db''\<rparr> ''test_db'' ''backup.sql'')) = [Some 3600] \<and>
   snd (MySQL_backup (\<lambda>c. Inl (TimeoutExpired ''timed out after 3600 seconds'')) Map.empty
      \<lparr>host = ''localhost'', port = 3306, username = ''root'', password = ''password'',
        default_database = ''test_db''\<rparr> ''test_db'' ''backup.sql'') =
     Inl (RuntimeError ''Unexpected error during backup: timed out after 3600 seconds'') \<and>
   snd (MySQL_backup (\<lambda>c. Inl (OtherException ''Permission denied'')) Map.empty
      \<lparr>host = ''localhost'', port = 3306, username = ''root'', password = ''password'',
        default_database = ''test_db''\<rparr> ''test_db'' ''backup.sql'') =
     Inl (RuntimeError ''Unexpected error during backup: Permission denied'') \<and>
   map timeout (fst (MySQL_restore (\<lambda>f. None)
      (\<lambda>c. Inl (TimeoutExpired ''timed out after 3600 seconds'')) Map.empty
      \<lparr>host = ''localhost'', port = 3306, username = ''root'', password = ''password'',
        default_database = ''test_db''\<rparr> ''test_db'' ''backup.sql'')) = [Some 3600] \<and>
   snd (MySQL_restore (\<lambda>f. None)
      (\<lambda>c. Inl (TimeoutExpired ''timed out after 3600 seconds'')) Map.empty
      \<lparr>host = ''localhost'', port = 3306, username = ''root'', password = ''password'',
        default_database = ''test_db''\<rparr> ''test_db'' ''backup.sql'') =
     Inl (RuntimeError ''Unexpected error during restore: timed out after 3600 seconds'') \<and>
   snd (MySQL_restore (\<lambda>f. None) (\<lambda>c. Inl (OtherException ''Permission denied'')) Map.empty
      \<lparr>host = ''localhost'', port = 3306, username = ''root'', password = ''password'',
        default_database = ''test_db''\<rparr> ''test_db'' ''backup.sql'') =
     Inl (RuntimeError ''Unexpected error during restore: Permission denied'') \<and>
   snd (MySQL_validate_connection
      (\<lambda>c. Inl (TimeoutExpired ''timed out after 10 seconds'')) Map.empty
      \<lparr>host = ''localhost'', port = 3306, username = ''root'', password = ''password'',
        default_database = ''test_db''\<rparr>) =
     Inl (RuntimeError (''Connection timeout to MySQL at localhost:3306. '' @
        ''Check that the server is running and network is accessible.''))"
  by (simp add: MySQL_backup_def MySQL_restore_def MySQL_validate_connection_def str_int_3306
      Let_def)

section \<open>The existence check of the MySQL handler\<close>

lemma MySQL_database_exists_probe_failure:
  assumes "\<And>c. run c = Inl (CalledProcessError err s) \<or> run c = Inl (TimeoutExpired s)"
  shows "snd (MySQL_database_exists run environ h db) = Inr True"
proof -
  let ?call = "\<lparr>argv = [''mysql'', ''-h'', host h, ''-P'', str_int (port h), ''-u'', username h,
      ''-e'', ''SHOW DATABASES LIKE '' @ [CHR 0x27] @ db @ [CHR 0x27] @ '';''],
      env = Some (MySQL_get_env environ h), stdin = None, timeout = Some 10\<rparr>"
  from assms [of ?call] show ?thesis
    by (auto simp: MySQL_database_exists_def Let_def)
qed

lemma MySQL_restore_calls:
  "map argv (fst (MySQL_restore open_file run environ h db input_file)) =
     (if open_file input_file = None
      then [[''mysql'', ''-h'', host h, ''-P'', str_int (port h), ''-u'', username h, db]]
      else [])"
  by (simp add: MySQL_restore_def Let_def split: option.split)

text \<open>
  C5. A restore by the MySQL handler with the file at hand and the tool succeeding spawns
  one process, the \<open>mysql\<close> client reading the backup; no \<open>SHOW DATABASES\<close> probe is run
  before it.
\<close>

theorem mysql_restore_without_existence_check:
  "map argv (fst (MySQL_restore (\<lambda>f. None) (\<lambda>c. Inr []) Map.empty
     \<lparr>host = ''localhost'', port = 3306, username = ''root'', password = ''password'',
       default_database = ''test_db''\<rparr> ''test_db'' ''backup.sql''))
   = [[''mysql'', ''-h'', ''localhost'', ''-P'', ''3306'', ''-u'', ''root'', ''test_db'']] \<and>
   snd (MySQL_restore (\<lambda>f. None) (\<lambda>c. Inr []) Map.empty
     \<lparr>host = ''localhost'', port = 3306, username = ''root'', password = ''password'',
       default_database = ''test_db''\<rparr> ''test_db'' ''backup.sql'') = Inr ()"
  by (simp add: MySQL_restore_def str_int_3306 Let_def)

section \<open>Properties of the restore command\<close>

lemma lazy_group_extends: "lazy_group g r = Some g' \<Longrightarrow> \<exists>x. g' = g @ x"
proof (induction r arbitrary: g)
  case Nil
  then show ?case by (auto split: if_splits)
next
  case (Cons c cs)
  show ?case
  proof (cases "match_suffix (c # cs)")
    case True
    with Cons.prems show ?thesis by simp
  next
    case False
    with Cons.prems have "lazy_group (g @ [c]) cs = Some g'"
      by (auto split: if_splits)
    from Cons.IH [OF this] show ?thesis by auto
  qed
qed

lemma extract_db_name_nonempty:
  assumes "extract_db_name_from_filename filename = Some name"
  shows "name \<noteq> []"
proof -
  from assms obtain s where "re_match s = Some name"
    by (auto simp: extract_db_name_from_filename_def Let_def split: option.splits)
  then obtain c cs where "lazy_group [c] cs = Some name"
    by (auto simp: re_match_def split: option.splits list.splits if_splits)
  from lazy_group_extends [OF this] show ?thesis by auto
qed

lemma guidance_names_format:
  "str_contains ''Expected format: postgres_<db_name>_full_<YYYY-MM-DD>_<HH-MM-SS>.sql'' guidance"
  by code_simp

text \<open>
  C9. Once the configuration is loaded and the handler is built, the restore command
  resolves the target database name in this order: an explicit name is used as given;
  failing that, the name decoded from the base name of the input file is used; failing
  that too, the command echoes the guidance message, which names the expected file name
  format, and exits with code 1 without calling \<open>perform_restore\<close>.
\<close>

theorem restore_name_resolution:
  assumes "ConfigLoader C config_file = Inr cfg"
    and "get_backup_directory C cfg = Inr dir"
    and "setup_logger C (dir @ ''/clidup.log'') = Inr u"
    and "get_postgres_config C cfg = Inr db_config"
  shows "(db_name = Some name \<longrightarrow>
            restore_calls (fst (restore C db file db_name config_file yes)) =
              [(PostgresHandler C db_config, name, file, yes)]) \<and>
         (db_name = None \<and> extract_db_name_from_filename (path_name file) = Some name \<longrightarrow>
            restore_calls (fst (restore C db file db_name config_file yes)) =
              [(PostgresHandler C db_config, name, file, yes)]) \<and>
         (db_name = None \<and> extract_db_name_from_filename (path_name file) = None \<longrightarrow>
            restore_calls (fst (restore C db file db_name config_file yes)) = [] \<and>
            EchoErr guidance \<in> set (fst (restore C db file db_name config_file yes)) \<and>
            snd (restore C db file db_name config_file yes) = 1) \<and>
         str_contains ''Expected format: postgres_<db_name>_full_<YYYY-MM-DD>_<HH-MM-SS>.sql''
           guidance"
proof -
  have a: "db_name = Some name \<Longrightarrow>
      restore_calls (fst (restore C db file db_name config_file yes)) =
        [(PostgresHandler C db_config, name, file, yes)]"
    using assms
    by (cases db) (simp add: restore_def restore_try_def bind_exc_def Let_def split: sum.split)
  have b: "db_name = None \<and> extract_db_name_from_filename (path_name file) = Some name \<Longrightarrow>
      restore_calls (fst (restore C db file db_name config_file yes)) =
        [(PostgresHandler C db_config, name, file, yes)]"
    using assms extract_db_name_nonempty [of "path_name file" name]
    by (cases db) (simp add: restore_def restore_try_def bind_exc_def Let_def split: sum.split)
  have c: "db_name = None \<and> extract_db_name_from_filename (path_name file) = None \<Longrightarrow>
      restore_calls (fst (restore C db file db_name config_file yes)) = [] \<and>
      EchoErr guidance \<in> set (fst (restore C db file db_name config_file yes)) \<and>
      snd (restore C db file db_name config_file yes) = 1"
    using assms
    by (cases db) (simp add: restore_def restore_try_def bind_exc_def Let_def)
  from a b c guidance_names_format show ?thesis by blast
qed

theorem restore_name_resolution_witness:
  "restore_calls (fst (restore mock_collaborators postgres ''backup.sql'' (Some ''test_db'')
      None True)) = [(mock_config, ''test_db'', ''backup.sql'', True)] \<and>
   restore_calls (fst (restore mock_collaborators postgres
      ''backups/postgres_myapp_db_full_2026-01-07_22-30.sql'' None None False)) =
     [(mock_config, ''myapp_db'', ''backups/postgres_myapp_db_full_2026-01-07_22-30.sql'', False)] \<and>
   restore_calls (fst (restore mock_collaborators postgres ''backup.sql'' None None False)) = [] \<and>
   EchoErr guidance \<in> set (fst (restore mock_collaborators postgres ''backup.sql'' None None False)) \<and>
   snd (restore mock_collaborators postgres ''backup.sql'' None None False) = 1"
proof -
  have 1: "ConfigLoader mock_collaborators None = Inr ()"
    and 2: "get_backup_directory mock_collaborators () = Inr ''backups''"
    and 3: "setup_logger mock_collaborators (''backups'' @ ''/clidup.log'') = Inr ()"
    and 4: "get_postgres_config mock_collaborators () = Inr mock_config"
    and 5: "PostgresHandler mock_collaborators mock_config = mock_config"
    by (simp_all add: mock_collaborators_def)
  have 6: "extract_db_name_from_filename
      (path_name ''backups/postgres_myapp_db_full_2026-01-07_22-30.sql'') = Some ''myapp_db''"
    by code_simp
  have 7: "extract_db_name_from_filename (path_name ''backup.sql'') = None"
    by code_simp
  note r = restore_name_resolution [OF 1 2 3 4]
  from r [of "Some ''test_db''" "''test_db''" postgres "''backup.sql''" True]
    r [of None "''myapp_db''" postgres "''backups/postgres_myapp_db_full_2026-01-07_22-30.sql''" False]
    r [of None "[]" postgres "''backup.sql''" False]
    5 6 7
  show ?thesis by simp
qed

text \<open>
  C4. The restore command hands its \<open>--yes\<close> flag on as \<open>skip_confirmation\<close>. In the
  restore sequence, when confirmation is not skipped and the user declines the prompt,
  the sequence ends as aborted and the handler's restore is not among the steps taken.
\<close>

theorem restore_confirmation_gate:
  assumes "\<not> confirm db_name backup_file"
  shows "(\<forall>a b. Restore a b \<notin> set (fst (perform_restore_spec confirm h db_name backup_file False))) \<and>
         snd (perform_restore_spec confirm h db_name backup_file False) \<noteq> Restored \<and>
         set (map (\<lambda>(handler, name, file, skip). skip)
                (restore_calls (fst (restore C db file given_name config_file yes)))) \<subseteq> {yes}"
proof -
  have a: "\<forall>a b. Restore a b \<notin> set (fst (perform_restore_spec confirm h db_name backup_file False))"
    using assms by (simp add: perform_restore_spec_def split: sum.split)
  have b: "snd (perform_restore_spec confirm h db_name backup_file False) \<noteq> Restored"
    using assms by (simp add: perform_restore_spec_def split: sum.split)
  have c: "set (map (\<lambda>(handler, name, file, skip). skip)
                (restore_calls (fst (restore C db file given_name config_file yes)))) \<subseteq> {yes}"
    by (cases db)
      (simp add: restore_def restore_try_def bind_exc_def Let_def
        split: sum.split option.split prod.split)
  from a b c show ?thesis by blast
qed

theorem restore_confirmation_gate_witness:
  "perform_restore_spec (\<lambda>name file. False) mock_handler ''test_db'' ''backup.sql'' False =
     ([ValidateTools, Confirm ''test_db'' ''backup.sql''], Aborted) \<and>
   snd (perform_restore_spec (\<lambda>name file. False) mock_handler ''test_db'' ''backup.sql'' False)
     \<noteq> Restored \<and>
   perform_restore_spec (\<lambda>name file. True) mock_handler ''test_db'' ''backup.sql'' False =
     ([ValidateTools, Confirm ''test_db'' ''backup.sql'', Restore ''test_db'' ''backup.sql''],
      Restored)"
proof -
  have 1: "\<not> (\<lambda>name file. False) ''test_db'' ''backup.sql''" by simp
  have 2: "perform_restore_spec (\<lambda>name file. False) mock_handler ''test_db'' ''backup.sql'' False =
     ([ValidateTools, Confirm ''test_db'' ''backup.sql''], Aborted)"
    by (simp add: perform_restore_spec_def mock_handler_def)
  have 3: "perform_restore_spec (\<lambda>name file. True) mock_handler ''test_db'' ''backup.sql'' False =
     ([ValidateTools, Confirm ''test_db'' ''backup.sql'', Restore ''test_db'' ''backup.sql''],
      Restored)"
    by (simp add: perform_restore_spec_def mock_handler_def)
  from 2 3 restore_confirmation_gate [OF 1, of mock_handler]
  show ?thesis by blast
qed

end
